theory Spec2Isabelle
  imports Complex_Main "HOL-Library.Word"
begin

section \<open>The parsed score\<close>

text \<open>
  The page component receives a \<open>Midi\<close> object and reads from it the tracks, each track's
  \<open>channel\<close> and \<open>notes\<close>, and each note's \<open>midi\<close> (pitch number), \<open>name\<close>, \<open>velocity\<close>,
  \<open>time\<close> and \<open>duration\<close>. Pitch and channel are integers. The three JavaScript numbers
  measured in seconds or as a fraction are modelled as reals: the component only compares
  them, takes a maximum and passes them on, and no parsed note carries NaN.
\<close>

record Note =
  midi :: int
  name :: string
  velocity :: real
  time :: real
  duration :: real

record Track =
  channel :: int
  "notes" :: "Note list"

record Midi =
  tracks :: "Track list"

section \<open>Voices and the scheduled callback\<close>

text \<open>
  The six instruments built by \<open>setupSynthsAndSchedule\<close>, named as the comments of the
  source name them: \<open>Kick\<close> is \<open>drumSynth\<close>, \<open>HiHat\<close> is \<open>hatSynth\<close>, \<open>Bass\<close> is \<open>bassSynth\<close>,
  \<open>Melody\<close> is \<open>melodySynth\<close>, \<open>Snare\<close> is \<open>snareSynth\<close> and \<open>Chord\<close> is \<open>chordSynth\<close>.
\<close>

datatype voice = Kick | HiHat | Bass | Melody | Snare | Chord

text \<open>
  The source calls \<open>triggerAttackRelease\<close> in two shapes: with four arguments
  \<open>(note.name, duration, time, velocity)\<close> and, for the snare only, with three arguments
  \<open>(duration, time, velocity)\<close>.
\<close>

datatype trigger_args =
    NameDurTimeVel string real real real
  | DurTimeVel real real real

fun passed_name :: "trigger_args \<Rightarrow> string option" where
  "passed_name (NameDurTimeVel n d t v) = Some n"
| "passed_name (DurTimeVel d t v) = None"

fun passed_duration :: "trigger_args \<Rightarrow> real" where
  "passed_duration (NameDurTimeVel n d t v) = d"
| "passed_duration (DurTimeVel d t v) = d"

fun passed_time :: "trigger_args \<Rightarrow> real" where
  "passed_time (NameDurTimeVel n d t v) = t"
| "passed_time (DurTimeVel d t v) = t"

fun passed_velocity :: "trigger_args \<Rightarrow> real" where
  "passed_velocity (NameDurTimeVel n d t v) = v"
| "passed_velocity (DurTimeVel d t v) = v"

text \<open>
  The body of the arrow function handed to \<open>Tone.Transport.schedule\<close>: which instrument
  variable receives the call, and with which arguments, when the transport invokes the
  callback with \<open>t\<close>.
\<close>

definition note_callback :: "Track \<Rightarrow> Note \<Rightarrow> real \<Rightarrow> voice \<times> trigger_args" where
  "note_callback track note t =
     (if channel track = 9 then
        (if midi note = 36 then
           (Kick, NameDurTimeVel (name note) (duration note) t (velocity note))
         else if midi note = 42 \<or> midi note = 46 then
           (let dur = max (duration note) 0.03
            in (HiHat, NameDurTimeVel (name note) dur t (velocity note)))
         else (Snare, DurTimeVel (duration note) t (velocity note)))
      else if channel track = 0 then
        (Bass, NameDurTimeVel (name note) (duration note) t (velocity note))
      else if channel track = 2 then
        (Chord, NameDurTimeVel (name note) (duration note) t (velocity note))
      else (Melody, NameDurTimeVel (name note) (duration note) t (velocity note)))"

section \<open>Instruments, transport and page state\<close>

text \<open>
  An instrument is an object created by \<open>new Tone.MembraneSynth(...)\<close> and its siblings.
  The model keeps its class and the value assigned to \<open>volume.value\<close> (0 where the source
  assigns none); the envelope and oscillator options take no part in scheduling. Objects
  are referred to by their index in the list of objects created so far, which gives each
  \<open>new\<close> a fresh identity.
\<close>

datatype synth_class = MembraneSynth | MetalSynth | MonoSynth | PolySynth | NoiseSynth

record synth =
  cls :: synth_class
  volume :: real

text \<open>The six local variables that every scheduled arrow function closes over.\<close>

record voices =
  drumSynth :: nat
  hatSynth :: nat
  bassSynth :: nat
  melodySynth :: nat
  snareSynth :: nat
  chordSynth :: nat

fun resolve :: "voices \<Rightarrow> voice \<Rightarrow> nat" where
  "resolve vs Kick = drumSynth vs"
| "resolve vs HiHat = hatSynth vs"
| "resolve vs Bass = bassSynth vs"
| "resolve vs Melody = melodySynth vs"
| "resolve vs Snare = snareSynth vs"
| "resolve vs Chord = chordSynth vs"

text \<open>
  A scheduled callback is the closure \<open>(time) => {...}\<close> together with what it captured:
  the instruments, the track and the note. Invoking it calls \<open>triggerAttackRelease\<close> on
  one instrument object.
\<close>

datatype callback = NoteCallback voices Track Note

fun invoke :: "callback \<Rightarrow> real \<Rightarrow> nat \<times> trigger_args" where
  "invoke (NoteCallback vs track note) t =
     (case note_callback track note t of (v, args) \<Rightarrow> (resolve vs v, args))"

text \<open>
  \<open>Tone.Transport\<close>, as far as the component uses it: its playback state, \<open>bpm.value\<close>,
  \<open>loop\<close>, \<open>loopStart\<close>, \<open>loopEnd\<close>, and the events installed by \<open>schedule\<close>, each a
  callback with its time, in the order of installation. \<open>cancel()\<close> is called without an
  argument and clears the scheduled events, as the comment of the source says.
\<close>

datatype playback = Started | Stopped

record transport =
  tstate :: playback
  bpm_value :: int
  loop :: bool
  loopStart :: real
  loopEnd :: real
  scheduled :: "(callback \<times> real) list"

definition Transport_stop :: "transport \<Rightarrow> transport" where
  "Transport_stop tr = tr\<lparr>tstate := Stopped\<rparr>"

definition Transport_start :: "transport \<Rightarrow> transport" where
  "Transport_start tr = tr\<lparr>tstate := Started\<rparr>"

definition Transport_cancel :: "transport \<Rightarrow> transport" where
  "Transport_cancel tr = tr\<lparr>scheduled := []\<rparr>"

definition Transport_schedule :: "callback \<Rightarrow> real \<Rightarrow> transport \<Rightarrow> transport" where
  "Transport_schedule cb when tr = tr\<lparr>scheduled := scheduled tr @ [(cb, when)]\<rparr>"

type_synonym blob = "8 word list"

record anchor =
  href :: string
  download :: string

text \<open>
  Everything the functions of the component read or write: the React state of \<open>Home\<close>, the
  ref \<open>synths.current\<close>, the global \<open>Tone.Transport\<close>, the instrument objects created and
  the calls of \<open>dispose()\<close> made on them (in order), the object URLs handed out by
  \<open>window.URL.createObjectURL\<close>, the alerts shown, and the anchors clicked by
  \<open>downloadBeat\<close>. State setters are modelled as taking effect at once.
\<close>

record page =
  selectedStyle :: string
  bpm :: int
  bars :: int
  includeChords :: bool
  isGenerating :: bool
  isPlaying :: bool
  isBeatReady :: bool
  midiUrl :: "string option"
  songTitle :: "string option"
  synths :: "nat list"
  Transport :: transport
  created :: "synth list"
  disposed :: "nat list"
  objectURLs :: "(string \<times> blob) list"
  alerts :: "string list"
  clicked :: "anchor list"



text \<open>
  The page as first rendered: the initial values of the \<open>useState\<close> calls, no instrument,
  and the transport of the library before anything is configured (stopped, nothing
  scheduled, with the library's defaults of 120 bpm and a loop end of four bars).
\<close>

definition mounted :: page where
  "mounted =
     \<lparr>selectedStyle = ''boombap'', bpm = 90, bars = 4, includeChords = False,
      isGenerating = False, isPlaying = False, isBeatReady = False,
      midiUrl = None, songTitle = None, synths = [],
      Transport = \<lparr>tstate = Stopped, bpm_value = 120, loop = False, loopStart = 0,
                   loopEnd = 8, scheduled = []\<rparr>,
      created = [], disposed = [], objectURLs = [], alerts = [], clicked = []\<rparr>"

subsection \<open>cleanupAudio\<close>

definition dispose :: "nat \<Rightarrow> page \<Rightarrow> page" where
  "dispose r s = s\<lparr>disposed := disposed s @ [r]\<rparr>"

definition cleanupAudio :: "page \<Rightarrow> page" where
  "cleanupAudio s0 =
     (let s1 = s0\<lparr>Transport := Transport_stop (Transport s0)\<rparr>;
          s2 = s1\<lparr>Transport := Transport_cancel (Transport s1)\<rparr>;
          s3 = fold dispose (synths s2) s2;
          s4 = s3\<lparr>synths := []\<rparr>
      in s4\<lparr>isPlaying := False\<rparr>)"

subsection \<open>setupSynthsAndSchedule\<close>

definition all_notes :: "Midi \<Rightarrow> Note list" where
  "all_notes m = concat (map notes (tracks m))"

definition note_end :: "Note \<Rightarrow> real" where
  "note_end n = time n + duration n"

text \<open>Modelled from the spec: \<open>midi.duration\<close> is a getter of the MIDI parsing library, which is
  not among the sources. The specification defines the total duration of a score as the
  maximum over all notes of start time plus duration. It gives no value for a score
  without notes; 0 stands for it here.
\<close>

definition Midi_duration :: "Midi \<Rightarrow> real" where
  "Midi_duration m =
     (if all_notes m = [] then 0 else Max (set (map note_end (all_notes m))))"

definition new_synth :: "synth_class \<Rightarrow> real \<Rightarrow> page \<Rightarrow> nat \<times> page" where
  "new_synth c vol s =
     (length (created s), s\<lparr>created := created s @ [\<lparr>cls = c, volume = vol\<rparr>]\<rparr>)"

definition schedule_note :: "voices \<Rightarrow> Track \<Rightarrow> Note \<Rightarrow> page \<Rightarrow> page" where
  "schedule_note vs track note s =
     s\<lparr>Transport := Transport_schedule (NoteCallback vs track note) (time note) (Transport s)\<rparr>"

definition setupSynthsAndSchedule :: "Midi \<Rightarrow> page \<Rightarrow> page" where
  "setupSynthsAndSchedule m s0 =
     (let (drum, s1) = new_synth MembraneSynth 5 s0;
          (hat, s2) = new_synth MetalSynth (- 10) s1;
          (bass, s3) = new_synth MonoSynth 0 s2;
          (melody, s4) = new_synth PolySynth (- 5) s3;
          (snare, s5) = new_synth NoiseSynth (- 5) s4;
          (chord, s6) = new_synth PolySynth (- 8) s5;
          vs = \<lparr>drumSynth = drum, hatSynth = hat, bassSynth = bass,
                melodySynth = melody, snareSynth = snare, chordSynth = chord\<rparr>;
          s7 = s6\<lparr>synths := [drum, hat, bass, melody, snare, chord]\<rparr>;
          s8 = s7\<lparr>Transport := (Transport s7)
                  \<lparr>bpm_value := bpm s7, loop := True, loopStart := 0,
                   loopEnd := Midi_duration m\<rparr>\<rparr>
      in fold (\<lambda>track. fold (schedule_note vs track) (notes track)) (tracks m) s8)"

subsection \<open>togglePlayback and the Play button\<close>

text \<open>
  \<open>togglePlayback\<close> first awaits \<open>Tone.start()\<close>, whose outcome is an input here: \<open>None\<close>
  when the promise resolves, \<open>Some e\<close> when it rejects with \<open>e\<close>, in which case the rejection
  leaves the function. The result pairs the rejection, if any, with the state reached.
\<close>

definition stopPlayback :: "page \<Rightarrow> page" where
  "stopPlayback s = s\<lparr>Transport := Transport_stop (Transport s), isPlaying := False\<rparr>"

definition startPlayback :: "page \<Rightarrow> page" where
  "startPlayback s = s\<lparr>Transport := Transport_start (Transport s), isPlaying := True\<rparr>"

definition togglePlayback :: "string option \<Rightarrow> page \<Rightarrow> string option \<times> page" where
  "togglePlayback audio s =
     (case audio of
        Some e \<Rightarrow> (Some e, s)
      | None \<Rightarrow> (None, if isPlaying s then stopPlayback s else startPlayback s))"

text \<open>
  The Play button carries \<open>onClick={togglePlayback}\<close> and \<open>disabled={!isBeatReady}\<close>: a
  click on a disabled button runs no handler.
\<close>

definition playButton :: "string option \<Rightarrow> page \<Rightarrow> string option \<times> page" where
  "playButton audio s = (if \<not> isBeatReady s then (None, s) else togglePlayback audio s)"

subsection \<open>generateBeat\<close>

definition dquote :: char where
  "dquote = CHR 0x22"

text \<open>
  \<open>contentDisposition.match(/filename="?([^"]+)"?/)\<close>, reduced to its first group: at the
  leftmost occurrence of \<open>filename=\<close> that is followed, after an optional double quote, by at
  least one character other than a double quote, the longest run of such characters.
\<close>

fun match_filename :: "string \<Rightarrow> string option" where
  "match_filename [] = None"
| "match_filename (c # cs) =
     (if take 9 (c # cs) = ''filename='' then
        (let rest = drop 9 (c # cs);
             inner = (case rest of [] \<Rightarrow> [] | x # xs \<Rightarrow> if x = dquote then xs else rest);
             group = takeWhile (\<lambda>x. x \<noteq> dquote) inner
         in if group \<noteq> [] then Some group else match_filename cs)
      else match_filename cs)"

text \<open>\<open>String.prototype.replace\<close> with a string pattern: the first occurrence only.\<close>

fun replace_first :: "string \<Rightarrow> string \<Rightarrow> string \<Rightarrow> string" where
  "replace_first pat rep [] = (if pat = [] then rep else [])"
| "replace_first pat rep (c # cs) =
     (if take (length pat) (c # cs) = pat then rep @ drop (length pat) (c # cs)
      else c # replace_first pat rep cs)"

record response =
  ok :: bool
  contentDisposition :: "string option"
  body :: blob

text \<open>
  What the environment contributes to one run of \<open>generateBeat\<close>: the outcome of
  \<open>Tone.start()\<close>; the outcome of \<open>fetch\<close> (\<open>Inl e\<close> when it throws, \<open>e\<close> being the thrown
  value converted to a string); the identifier that \<open>createObjectURL\<close> puts after \<open>blob:\<close>;
  and the constructor \<open>new Midi(arrayBuffer)\<close>, which throws or returns the parsed score.
  The request URL built from the style, bpm, bars and chords only selects the response and
  is left out, as are the console messages.
\<close>

record generation =
  audio_start :: "string option"
  fetched :: "string + response"
  uuid :: string
  parse_midi :: "blob \<Rightarrow> string + Midi"

definition createObjectURL :: "string \<Rightarrow> blob \<Rightarrow> page \<Rightarrow> string \<times> page" where
  "createObjectURL u b s =
     (''blob:'' @ u, s\<lparr>objectURLs := (''blob:'' @ u, b) # objectURLs s\<rparr>)"

definition default_filename :: "string \<Rightarrow> string" where
  "default_filename style = ''beatstorm_'' @ style @ ''.mid''"

definition chosen_filename :: "string \<Rightarrow> string option \<Rightarrow> string" where
  "chosen_filename style cd =
     (case cd of
        None \<Rightarrow> default_filename style
      | Some h \<Rightarrow>
          if h = [] then default_filename style
          else (case match_filename h of
                  Some m \<Rightarrow> m
                | None \<Rightarrow> default_filename style))"

text \<open>
  The \<open>try\<close> block: the value thrown inside it, if any, and the state reached at that point.
\<close>

definition generate_try :: "generation \<Rightarrow> page \<Rightarrow> string option \<times> page" where
  "generate_try g s =
     (case fetched g of
        Inl e \<Rightarrow> (Some e, s)
      | Inr resp \<Rightarrow>
          if \<not> ok resp then (Some ''Error: Generation failed'', s)
          else
            (let filename = chosen_filename (selectedStyle s) (contentDisposition resp);
                 s1 = s\<lparr>songTitle := Some (replace_first ''.mid'' [] filename)\<rparr>;
                 (url, s2) = createObjectURL (uuid g) (body resp) s1;
                 s3 = s2\<lparr>midiUrl := Some url\<rparr>
             in case parse_midi g (body resp) of
                  Inl e \<Rightarrow> (Some e, s3)
                | Inr m \<Rightarrow> (None, (setupSynthsAndSchedule m s3)\<lparr>isBeatReady := True\<rparr>)))"

definition generateBeat :: "generation \<Rightarrow> page \<Rightarrow> string option \<times> page" where
  "generateBeat g s0 =
     (let s1 = cleanupAudio s0
      in case audio_start g of
           Some e \<Rightarrow> (Some e, s1)
         | None \<Rightarrow>
             (let s2 = s1\<lparr>isGenerating := True, isBeatReady := False,
                          midiUrl := None, songTitle := None\<rparr>;
                  (thrown, s3) = generate_try g s2;
                  s4 = (case thrown of
                          None \<Rightarrow> s3
                        | Some error \<Rightarrow> s3\<lparr>alerts := alerts s3 @ [''Error: '' @ error]\<rparr>)
              in (None, s4\<lparr>isGenerating := False\<rparr>)))"

text \<open>
  An \<open>async\<close> function runs up to an \<open>await\<close> and is resumed later, and other handlers
  can run in between. The stretches of \<open>generateBeat\<close>: from the call to
  \<open>await initializeAudio()\<close> (l.53); from there to \<open>await fetch\<close> (l.55 to l.58); and from
  the response to the end of \<open>finally\<close>.
\<close>

definition generateBeat_enter :: "page \<Rightarrow> page" where
  "generateBeat_enter s0 = cleanupAudio s0"

definition generateBeat_request :: "page \<Rightarrow> page" where
  "generateBeat_request s1 =
     s1\<lparr>isGenerating := True, isBeatReady := False, midiUrl := None, songTitle := None\<rparr>"

definition generateBeat_respond :: "generation \<Rightarrow> page \<Rightarrow> page" where
  "generateBeat_respond g s2 =
     (let (thrown, s3) = generate_try g s2;
          s4 = (case thrown of
                  None \<Rightarrow> s3
                | Some error \<Rightarrow> s3\<lparr>alerts := alerts s3 @ [''Error: '' @ error]\<rparr>)
      in s4\<lparr>isGenerating := False\<rparr>)"

text \<open>
  The Generate button carries \<open>onClick={generateBeat}\<close> and \<open>disabled={isGenerating}\<close>.
\<close>

definition generateButton_enabled :: "page \<Rightarrow> bool" where
  "generateButton_enabled s = (\<not> isGenerating s)"

text \<open>
  Two clicks on the Generate button, the second while the first run waits for
  \<open>Tone.start()\<close>: both runs enter, both continue once the promise has resolved, and the
  two responses arrive in the order of the requests.
\<close>

definition overlapped :: "generation \<Rightarrow> generation \<Rightarrow> page \<Rightarrow> page" where
  "overlapped gA gB s =
     generateBeat_respond gB (generateBeat_respond gA
       (generateBeat_request (generateBeat_request
          (generateBeat_enter (generateBeat_enter s)))))"

subsection \<open>downloadBeat\<close>


section \<open>What a call of setupSynthsAndSchedule installs\<close>

text \<open>
  The six instruments in the order of their creation, the variables bound to them when
  \<open>n\<close> objects existed before, and the registrations of a score: for each track in order,
  for each of its notes in order, the callback of that note at the time of that note.
\<close>

definition six_synths :: "synth list" where
  "six_synths = [\<lparr>cls = MembraneSynth, volume = 5\<rparr>, \<lparr>cls = MetalSynth, volume = - 10\<rparr>,
      \<lparr>cls = MonoSynth, volume = 0\<rparr>, \<lparr>cls = PolySynth, volume = - 5\<rparr>,
      \<lparr>cls = NoiseSynth, volume = - 5\<rparr>, \<lparr>cls = PolySynth, volume = - 8\<rparr>]"

definition fresh_voices :: "nat \<Rightarrow> voices" where
  "fresh_voices n =
     \<lparr>drumSynth = n, hatSynth = n + 1, bassSynth = n + 2,
      melodySynth = n + 3, snareSynth = n + 4, chordSynth = n + 5\<rparr>"

definition track_registrations :: "voices \<Rightarrow> Track \<Rightarrow> (callback \<times> real) list" where
  "track_registrations vs track = map (\<lambda>note. (NoteCallback vs track note, time note)) (notes track)"

definition registrations :: "voices \<Rightarrow> Midi \<Rightarrow> (callback \<times> real) list" where
  "registrations vs m = concat (map (track_registrations vs) (tracks m))"

definition callback_note :: "callback \<Rightarrow> Note" where
  "callback_note cb = (case cb of NoteCallback vs track note \<Rightarrow> note)"

definition callback_voices :: "callback \<Rightarrow> voices" where
  "callback_voices cb = (case cb of NoteCallback vs track note \<Rightarrow> vs)"

section \<open>Example inputs\<close>

definition note_at :: "int \<Rightarrow> string \<Rightarrow> real \<Rightarrow> real \<Rightarrow> Note" where
  "note_at p n start dur =
     \<lparr>midi = p, name = n, velocity = 0.8, time = start, duration = dur\<rparr>"

definition track_on :: "int \<Rightarrow> Note list \<Rightarrow> Track" where
  "track_on c ns = \<lparr>channel = c, notes = ns\<rparr>"

text \<open>
  A score of two tracks whose last note to end is on the bass track, and a second score of
  one chord track.
\<close>

definition demo :: Midi where
  "demo = \<lparr>tracks = [track_on 9 [note_at 36 ''C2'' 0 0.1, note_at 42 ''F#2'' 0.5 0.01], track_on 0 [note_at 40 ''E2'' 1 0.5]]\<rparr>"

definition encore :: Midi where
  "encore = \<lparr>tracks = [track_on 2 [note_at 60 ''C4'' 0 2, note_at 64 ''E4'' 0 2]]\<rparr>"

text \<open>
  Three environments of a generation: the fetch throws, the server answers with a status
  that is not a success, and the server answers with a body that parses to a given score,
  under a given \<open>Content-Disposition\<close> header.
\<close>

definition offline :: generation where
  "offline = \<lparr>audio_start = None, fetched = Inl ''TypeError: Failed to fetch'',
               uuid = ''0001'', parse_midi = (\<lambda>b. Inl ''Error: no data'')\<rparr>"

definition refused :: generation where
  "refused = \<lparr>audio_start = None,
               fetched = Inr \<lparr>ok = False, contentDisposition = None, body = []\<rparr>,
               uuid = ''0002'', parse_midi = (\<lambda>b. Inl ''Error: no data'')\<rparr>"

definition served :: "string option \<Rightarrow> string \<Rightarrow> Midi \<Rightarrow> generation" where
  "served cd u m = \<lparr>audio_start = None,
               fetched = Inr \<lparr>ok = True, contentDisposition = cd, body = [77, 84, 104, 100]\<rparr>,
               uuid = u, parse_midi = (\<lambda>b. Inr m)\<rparr>"

text \<open>
  A page on which a score is installed, a page after one successful generation, and a header
  with a quoted file name.
\<close>

definition configured :: page where
  "configured = setupSynthsAndSchedule demo mounted"

definition first_session :: page where
  "first_session = snd (generateBeat (served None ''0001'' demo) mounted)"


text \<open>
  An environment in which \<open>Tone.start()\<close> rejects, and the page it leaves when a generation
  is attempted after a successful one.
\<close>

definition blocked :: generation where
  "blocked = \<lparr>audio_start = Some ''InvalidStateError'', fetched = Inl ''TypeError: Failed to fetch'',
               uuid = ''0003'', parse_midi = (\<lambda>b. Inl ''Error: no data'')\<rparr>"

definition torn_down :: page where
  "torn_down = snd (generateBeat blocked first_session)"

section \<open>Routing\<close>

lemma note_callback_voice:
  "fst (note_callback track note t) =
     (if channel track = 9 then
        (if midi note = 36 then Kick
         else if midi note = 42 \<or> midi note = 46 then HiHat else Snare)
      else if channel track = 0 then Bass
      else if channel track = 2 then Chord else Melody)"
  by (simp add: note_callback_def Let_def)

lemma HiHat_routed_iff:
  "fst (note_callback track note t) = HiHat \<longleftrightarrow>
     channel track = 9 \<and> (midi note = 42 \<or> midi note = 46)"
  by (simp add: note_callback_voice)

lemma Snare_routed_iff:
  "fst (note_callback track note t) = Snare \<longleftrightarrow>
     channel track = 9 \<and> midi note \<noteq> 36 \<and> midi note \<noteq> 42 \<and> midi note \<noteq> 46"
  by (simp add: note_callback_voice)

text \<open>
  Claim C1. The routing is total and is the table of the specification: on channel 9 pitch
  36 goes to the kick, pitches 42 and 46 go to the hi-hat and every other pitch goes to the
  snare; channel 0 goes to the bass, channel 2 to the chords, and every other channel to
  the melody. The six cases cover every pair of channel and pitch, so each note reaches
  one voice and none is dropped.
\<close>

theorem routing_table:
  "(channel track = 9 \<and> midi note = 36 \<longrightarrow> fst (note_callback track note t) = Kick) \<and>
   (channel track = 9 \<and> (midi note = 42 \<or> midi note = 46) \<longrightarrow>
      fst (note_callback track note t) = HiHat) \<and>
   (channel track = 9 \<and> midi note \<noteq> 36 \<and> midi note \<noteq> 42 \<and> midi note \<noteq> 46 \<longrightarrow>
      fst (note_callback track note t) = Snare) \<and>
   (channel track = 0 \<longrightarrow> fst (note_callback track note t) = Bass) \<and>
   (channel track = 2 \<longrightarrow> fst (note_callback track note t) = Chord) \<and>
   (channel track \<noteq> 9 \<and> channel track \<noteq> 0 \<and> channel track \<noteq> 2 \<longrightarrow>
      fst (note_callback track note t) = Melody)"
  by (simp add: note_callback_voice)

text \<open>
  The table at one note for each row: a kick, a closed hi-hat, a clap on pitch 39, a bass
  note, a chord note and a note on channel 5.
\<close>

theorem routing_table_witness:
  "fst (note_callback (track_on 9 []) (note_at 36 ''C2'' 0 0.1) 0) = Kick \<and>
   fst (note_callback (track_on 9 []) (note_at 42 ''F#2'' 0.5 0.01) 0.5) = HiHat \<and>
   fst (note_callback (track_on 9 []) (note_at 39 ''D#2'' 1 0.1) 1) = Snare \<and>
   fst (note_callback (track_on 0 []) (note_at 40 ''E2'' 1 0.5) 1) = Bass \<and>
   fst (note_callback (track_on 2 []) (note_at 60 ''C4'' 1 0.5) 1) = Chord \<and>
   fst (note_callback (track_on 5 []) (note_at 72 ''C5'' 1 0.5) 1) = Melody"
  using routing_table [of "track_on 9 []" "note_at 36 ''C2'' 0 0.1" "0"]
    routing_table [of "track_on 9 []" "note_at 42 ''F#2'' 0.5 0.01" "0.5"]
    routing_table [of "track_on 9 []" "note_at 39 ''D#2'' 1 0.1" "1"]
    routing_table [of "track_on 0 []" "note_at 40 ''E2'' 1 0.5" "1"]
    routing_table [of "track_on 2 []" "note_at 60 ''C4'' 1 0.5" "1"]
    routing_table [of "track_on 5 []" "note_at 72 ''C5'' 1 0.5" "1"]
  by (simp add: note_at_def track_on_def)

section \<open>Arguments of the trigger\<close>

lemma HiHat_args:
  assumes "fst (note_callback track note t) = HiHat"
  shows "snd (note_callback track note t) =
           NameDurTimeVel (name note) (max (duration note) 0.03) t (velocity note)"
proof -
  from assms have "channel track = 9" and "midi note = 42 \<or> midi note = 46"
    by (simp_all add: HiHat_routed_iff)
  then show ?thesis
    by (auto simp add: note_callback_def Let_def)
qed

lemma Snare_args:
  assumes "fst (note_callback track note t) = Snare"
  shows "snd (note_callback track note t) = DurTimeVel (duration note) t (velocity note)"
proof -
  from assms have "channel track = 9" and "midi note \<noteq> 36"
    and "midi note \<noteq> 42" and "midi note \<noteq> 46"
    by (simp_all add: Snare_routed_iff)
  then show ?thesis
    by (simp add: note_callback_def)
qed

text \<open>
  Claim C2. For every note routed to the hi-hat (channel 9, pitch 42 or 46) the duration
  passed to \<open>hatSynth.triggerAttackRelease\<close> is \<open>max (duration note) 0.03\<close>: it is never
  below 0.03 seconds, and a duration of at least 0.03 seconds is passed unchanged.
\<close>

theorem hihat_duration_floor:
  assumes "channel track = 9" and "midi note = 42 \<or> midi note = 46"
  shows "fst (note_callback track note t) = HiHat \<and>
         passed_duration (snd (note_callback track note t)) = max (duration note) 0.03 \<and>
         0.03 \<le> passed_duration (snd (note_callback track note t)) \<and>
         (0.03 \<le> duration note \<longrightarrow>
            passed_duration (snd (note_callback track note t)) = duration note)"
proof -
  have r: "fst (note_callback track note t) = HiHat"
    using assms by (simp add: HiHat_routed_iff)
  have d: "passed_duration (snd (note_callback track note t)) = max (duration note) 0.03"
    by (simp add: HiHat_args [OF r])
  show ?thesis
    using r by (simp add: d)
qed

theorem hihat_duration_floor_witness:
  "passed_duration (snd (note_callback (track_on 9 []) (note_at 42 ''F#2'' 0.5 0.01) 0.5)) = 0.03 \<and>
   passed_duration (snd (note_callback (track_on 9 []) (note_at 46 ''A#2'' 0.5 0.25) 0.5)) = 0.25"
proof -
  have c: "channel (track_on 9 []) = 9"
    by (simp add: track_on_def)
  have p: "midi (note_at 42 ''F#2'' 0.5 0.01) = 42 \<or> midi (note_at 42 ''F#2'' 0.5 0.01) = 46"
    by (simp add: note_at_def)
  have q: "midi (note_at 46 ''A#2'' 0.5 0.25) = 42 \<or> midi (note_at 46 ''A#2'' 0.5 0.25) = 46"
    by (simp add: note_at_def)
  show ?thesis
    using hihat_duration_floor [OF c p, of "0.5"] hihat_duration_floor [OF c q, of "0.5"]
    by (simp add: note_at_def)
qed

text \<open>
  Claim C3, as stated: a note routed to the hi-hat or to the snare is triggered without any
  pitch or name. The snare is, but the hi-hat call passes \<open>note.name\<close> as its first
  argument: the closed hi-hat of the end-to-end example of the specification receives the
  name of the note.
\<close>

theorem hihat_receives_name:
  "fst (note_callback (track_on 9 []) (note_at 42 ''F#2'' 0.5 0.01) 0.5) = HiHat \<and>
   passed_name (snd (note_callback (track_on 9 []) (note_at 42 ''F#2'' 0.5 0.01) 0.5))
     = Some ''F#2''"
  by (simp add: note_callback_def note_at_def track_on_def Let_def)

text \<open>
  Claim C3, amended. Every note routed to the snare, that is every note on channel 9 whose
  pitch is none of 36, 42 and 46, is triggered with the three arguments duration, time and
  velocity only, and its pitch and name are not passed. Every note routed to the hi-hat is
  triggered with four arguments, the first being the name of the note and the second the
  duration raised to 0.03 seconds.
\<close>

theorem unpitched_trigger_arguments:
  "(channel track = 9 \<and> midi note \<noteq> 36 \<and> midi note \<noteq> 42 \<and> midi note \<noteq> 46 \<longrightarrow>
      note_callback track note t = (Snare, DurTimeVel (duration note) t (velocity note))) \<and>
   (fst (note_callback track note t) = Snare \<longrightarrow>
      passed_name (snd (note_callback track note t)) = None) \<and>
   (fst (note_callback track note t) = HiHat \<longrightarrow>
      snd (note_callback track note t) =
        NameDurTimeVel (name note) (max (duration note) 0.03) t (velocity note))"
  by (simp add: Snare_args HiHat_args) (simp add: note_callback_def)

theorem unpitched_trigger_arguments_witness:
  "note_callback (track_on 9 []) (note_at 39 ''D#2'' 1 0.1) 1 = (Snare, DurTimeVel 0.1 1 0.8) \<and>
   passed_name (snd (note_callback (track_on 9 []) (note_at 39 ''D#2'' 1 0.1) 1)) = None \<and>
   snd (note_callback (track_on 9 []) (note_at 42 ''F#2'' 0.5 0.01) 0.5)
     = NameDurTimeVel ''F#2'' 0.03 0.5 0.8"
  using unpitched_trigger_arguments [of "track_on 9 []" "note_at 39 ''D#2'' 1 0.1" "1"]
    unpitched_trigger_arguments [of "track_on 9 []" "note_at 42 ''F#2'' 0.5 0.01" "0.5"]
  by (simp add: note_at_def track_on_def note_callback_voice)

section \<open>The operations as state updates\<close>

text \<open>The two \<open>forEach\<close> loops, and the functions built on them, in closed form.\<close>

lemma fold_dispose: "fold dispose rs s = s\<lparr>disposed := disposed s @ rs\<rparr>"
  by (induction rs arbitrary: s) (simp_all add: dispose_def)

lemma cleanupAudio_eq:
  "cleanupAudio s =
     s\<lparr>Transport := (Transport s)\<lparr>tstate := Stopped, scheduled := []\<rparr>,
       disposed := disposed s @ synths s, synths := [], isPlaying := False\<rparr>"
  by (simp add: cleanupAudio_def Let_def fold_dispose Transport_stop_def Transport_cancel_def)

lemma fold_schedule_note:
  "fold (schedule_note vs track) ns s =
     s\<lparr>Transport := (Transport s)\<lparr>scheduled := scheduled (Transport s) @
          map (\<lambda>note. (NoteCallback vs track note, time note)) ns\<rparr>\<rparr>"
  by (induction ns arbitrary: s) (simp_all add: schedule_note_def Transport_schedule_def)

lemma fold_schedule_tracks:
  "fold (\<lambda>track. fold (schedule_note vs track) (notes track)) ts s =
     s\<lparr>Transport := (Transport s)\<lparr>scheduled := scheduled (Transport s) @
          concat (map (track_registrations vs) ts)\<rparr>\<rparr>"
  by (induction ts arbitrary: s) (simp_all add: fold_schedule_note track_registrations_def)

lemma setup_eq:
  "setupSynthsAndSchedule m s =
     s\<lparr>created := created s @ six_synths,
       synths := [length (created s), length (created s) + 1, length (created s) + 2,
                  length (created s) + 3, length (created s) + 4, length (created s) + 5],
       Transport := (Transport s)
         \<lparr>bpm_value := bpm s, loop := True, loopStart := 0, loopEnd := Midi_duration m,
          scheduled := scheduled (Transport s) @
             registrations (fresh_voices (length (created s))) m\<rparr>\<rparr>"
  by (simp add: setupSynthsAndSchedule_def new_synth_def Let_def fold_schedule_tracks
      registrations_def fresh_voices_def six_synths_def eval_nat_numeral)

lemma registrations_notes: "map (callback_note \<circ> fst) (registrations vs m) = all_notes m"
  by (simp add: registrations_def all_notes_def track_registrations_def map_concat comp_def callback_note_def)

lemma registrations_times: "map snd (registrations vs m) = map time (all_notes m)"
  by (simp add: registrations_def all_notes_def track_registrations_def map_concat comp_def)

lemma registrations_voices: "reg \<in> set (registrations vs m) \<Longrightarrow> callback_voices (fst reg) = vs"
  by (auto simp add: registrations_def track_registrations_def callback_voices_def)

lemma fresh_voices_inject: "fresh_voices a = fresh_voices b \<Longrightarrow> a = b"
  by (simp add: fresh_voices_def)

lemma resolve_fresh: "resolve (fresh_voices n) v \<in> set [n, n + 1, n + 2, n + 3, n + 4, n + 5]"
  by (cases v) (simp_all add: fresh_voices_def)

lemma fst_invoke:
  "fst (invoke (NoteCallback vs track n) t) = resolve vs (fst (note_callback track n t))"
  by (simp split: prod.splits)

text \<open>
  The four ways a run of \<open>generateBeat\<close> can go: \<open>Tone.start()\<close> rejects; the fetch throws or
  answers without success; the body does not parse; the score is installed.
\<close>

lemma generateBeat_aborted:
  assumes "audio_start g = Some e"
  shows "generateBeat g s = (Some e, cleanupAudio s)"
  using assms by (simp add: generateBeat_def Let_def)

lemma generateBeat_failed:
  assumes "audio_start g = None"
    and "fetched g = Inl e \<or> (fetched g = Inr r \<and> \<not> ok r \<and> e = ''Error: Generation failed'')"
  shows "generateBeat g s =
     (None, (cleanupAudio s)\<lparr>isGenerating := False, isBeatReady := False, midiUrl := None,
        songTitle := None, alerts := alerts s @ [''Error: '' @ e]\<rparr>)"
  using assms
  by (auto simp add: generateBeat_def generate_try_def Let_def cleanupAudio_eq)

lemma generateBeat_unparsed:
  assumes "audio_start g = None" and "fetched g = Inr r" and "ok r"
    and "parse_midi g (body r) = Inl e"
  shows "generateBeat g s =
     (None, (cleanupAudio s)\<lparr>isGenerating := False, isBeatReady := False,
           songTitle := Some (replace_first ''.mid'' []
              (chosen_filename (selectedStyle s) (contentDisposition r))),
           objectURLs := (''blob:'' @ uuid g, body r) # objectURLs s,
           midiUrl := Some (''blob:'' @ uuid g),
           alerts := alerts s @ [''Error: '' @ e]\<rparr>)"
  using assms
  by (simp add: generateBeat_def generate_try_def Let_def cleanupAudio_eq createObjectURL_def)

lemma generateBeat_served:
  assumes "audio_start g = None" and "fetched g = Inr r" and "ok r"
    and "parse_midi g (body r) = Inr m"
  shows "generateBeat g s =
     (None, (setupSynthsAndSchedule m
        ((cleanupAudio s)\<lparr>isGenerating := True, isBeatReady := False,
           songTitle := Some (replace_first ''.mid'' []
              (chosen_filename (selectedStyle s) (contentDisposition r))),
           objectURLs := (''blob:'' @ uuid g, body r) # objectURLs s,
           midiUrl := Some (''blob:'' @ uuid g)\<rparr>))
        \<lparr>isBeatReady := True, isGenerating := False\<rparr>)"
  using assms
  by (simp add: generateBeat_def generate_try_def Let_def cleanupAudio_eq createObjectURL_def
      setup_eq)

lemma generateBeat_stretches:
  "generateBeat g s =
     (case audio_start g of
        Some e \<Rightarrow> (Some e, generateBeat_enter s)
      | None \<Rightarrow> (None, generateBeat_respond g (generateBeat_request (generateBeat_enter s))))"
  by (simp add: generateBeat_def generateBeat_enter_def generateBeat_request_def
      generateBeat_respond_def Let_def split: option.splits prod.splits)

text \<open>
  Whatever happens, a run of \<open>generateBeat\<close> leaves either nothing scheduled, or the
  registrations of one score bound to six instruments created during that run.
\<close>

lemma generateBeat_scheduled:
  "scheduled (Transport (snd (generateBeat g s))) = [] \<and>
     length (created (snd (generateBeat g s))) = length (created s) \<or>
   (\<exists>m. scheduled (Transport (snd (generateBeat g s))) =
           registrations (fresh_voices (length (created s))) m \<and>
        length (created (snd (generateBeat g s))) = length (created s) + 6)"
proof (cases "audio_start g")
  case (Some e)
  then show ?thesis by (simp add: generateBeat_aborted cleanupAudio_eq)
next
  case None
  show ?thesis
  proof (cases "fetched g")
    case (Inl e)
    then show ?thesis
      using generateBeat_failed [OF None, of e undefined s] by (simp add: cleanupAudio_eq)
  next
    case (Inr r)
    show ?thesis
    proof (cases "ok r")
      case False
      with Inr show ?thesis
        using generateBeat_failed [OF None, of "''Error: Generation failed''" r s]
        by (simp add: cleanupAudio_eq)
    next
      case True
      show ?thesis
      proof (cases "parse_midi g (body r)")
        case (Inl e)
        then show ?thesis
          by (simp add: generateBeat_unparsed [OF None Inr True Inl] cleanupAudio_eq)
      next
        case (Inr m)
        then show ?thesis
          by (auto simp add: generateBeat_served [OF None \<open>fetched g = Inr r\<close> True Inr]
              cleanupAudio_eq setup_eq six_synths_def)
      qed
    qed
  qed
qed




lemma togglePlayback_playing:
  "isPlaying s \<Longrightarrow> togglePlayback None s = (None, stopPlayback s)"
  by (simp add: togglePlayback_def)

subsection \<open>The example inputs\<close>

lemma mounted_fields:
  "synths mounted = []" "disposed mounted = []" "alerts mounted = []" "created mounted = []"
  "\<not> isBeatReady mounted" "\<not> isPlaying mounted" "selectedStyle mounted = ''boombap''"
  "clicked mounted = []" "objectURLs mounted = []" "midiUrl mounted = None"
  "scheduled (Transport mounted) = []" "tstate (Transport mounted) = Stopped"
  by (simp_all add: mounted_def)

lemma configured_fields:
  "synths configured = [0, 1, 2, 3, 4, 5]" "disposed configured = []" "alerts configured = []"
  "created configured = six_synths"
  "scheduled (Transport configured) = registrations (fresh_voices 0) demo"
  by (simp_all add: configured_def setup_eq mounted_def)

lemma served_fields:
  "audio_start (served cd u m) = None"
  "fetched (served cd u m) = Inr \<lparr>ok = True, contentDisposition = cd, body = [77, 84, 104, 100]\<rparr>"
  "uuid (served cd u m) = u"
  "parse_midi (served cd u m) b = Inr m"
  by (simp_all add: served_def)

lemma first_session_fields:
  "synths first_session = [0, 1, 2, 3, 4, 5]" "disposed first_session = []"
  "created first_session = six_synths"
  "scheduled (Transport first_session) = registrations (fresh_voices 0) demo"
  "isBeatReady first_session"
  unfolding first_session_def
  by (simp_all add: generateBeat_served [OF served_fields(1) served_fields(2) _ served_fields(4)]
      setup_eq cleanupAudio_eq mounted_fields)



lemma generateBeat_respond_served:
  "generateBeat_respond (served cd u m) s =
     (setupSynthsAndSchedule m
        (s\<lparr>songTitle := Some (replace_first ''.mid'' [] (chosen_filename (selectedStyle s) cd)),
           objectURLs := (''blob:'' @ u, [77, 84, 104, 100]) # objectURLs s,
           midiUrl := Some (''blob:'' @ u)\<rparr>))
       \<lparr>isBeatReady := True, isGenerating := False\<rparr>"
  by (simp add: generateBeat_respond_def generate_try_def served_fields Let_def
      createObjectURL_def)

lemma torn_down_eq: "torn_down = cleanupAudio first_session"
  by (simp add: torn_down_def generateBeat_aborted blocked_def)

section \<open>Configuring the transport\<close>

text \<open>
  Claim C4. \<open>setupSynthsAndSchedule\<close> leaves the transport with \<open>loopStart = 0\<close>, looping
  enabled, the tempo equal to the \<open>bpm\<close> of the page, and \<open>loopEnd\<close> equal to the total
  duration of the score; for a score with at least one note that is the maximum of start
  time plus duration over all its notes.
\<close>

theorem configure_transport:
  "loopStart (Transport (setupSynthsAndSchedule m s)) = 0 \<and>
   loop (Transport (setupSynthsAndSchedule m s)) \<and>
   bpm_value (Transport (setupSynthsAndSchedule m s)) = bpm s \<and>
   loopEnd (Transport (setupSynthsAndSchedule m s)) = Midi_duration m \<and>
   (all_notes m \<noteq> [] \<longrightarrow>
      loopEnd (Transport (setupSynthsAndSchedule m s)) = Max (note_end ` set (all_notes m)))"
  by (simp add: setup_eq Midi_duration_def)

theorem configure_transport_witness:
  "all_notes demo \<noteq> [] \<and> loopEnd (Transport (setupSynthsAndSchedule demo mounted)) = 1.5
   \<and> bpm_value (Transport (setupSynthsAndSchedule demo mounted)) = 90"
  using configure_transport [of demo mounted]
  by (simp add: demo_def all_notes_def track_on_def note_at_def note_end_def mounted_def)

text \<open>
  Claim C5. One call of \<open>setupSynthsAndSchedule\<close> appends to the events of the transport
  exactly the registrations of the score: read in order, the registrations added are for
  the notes of the tracks in order, each note once, and each at the \<open>time\<close> of its note.
\<close>

theorem one_registration_per_note:
  "scheduled (Transport (setupSynthsAndSchedule m s)) =
     scheduled (Transport s) @ registrations (fresh_voices (length (created s))) m \<and>
   map (callback_note \<circ> fst)
     (drop (length (scheduled (Transport s))) (scheduled (Transport (setupSynthsAndSchedule m s))))
     = all_notes m \<and>
   map snd
     (drop (length (scheduled (Transport s))) (scheduled (Transport (setupSynthsAndSchedule m s))))
     = map time (all_notes m)"
  by (simp add: setup_eq registrations_notes registrations_times del: map_map)

section \<open>Teardown\<close>

text \<open>
  Claim C6. \<open>cleanupAudio\<close> is idempotent from any state: a second call changes nothing,
  and in particular calls \<open>dispose()\<close> on no instrument, because the first call emptied
  \<open>synths.current\<close>. After it the transport is stopped, nothing is scheduled, the pool is
  empty and \<open>isPlaying\<close> is false. The stop branch of \<open>togglePlayback\<close>, which stops the
  transport and clears \<open>isPlaying\<close>, is idempotent as well.
\<close>

theorem cleanup_idempotent:
  "cleanupAudio (cleanupAudio s) = cleanupAudio s \<and>
   tstate (Transport (cleanupAudio s)) = Stopped \<and>
   scheduled (Transport (cleanupAudio s)) = [] \<and>
   synths (cleanupAudio s) = [] \<and>
   \<not> isPlaying (cleanupAudio s) \<and>
   disposed (cleanupAudio s) = disposed s @ synths s \<and>
   stopPlayback (stopPlayback s) = stopPlayback s"
  by (simp add: cleanupAudio_eq stopPlayback_def Transport_stop_def)

section \<open>The Play button\<close>

text \<open>
  Claim C7. Starting or stopping while nothing is configured, or after teardown, is to
  change nothing. \<open>togglePlayback\<close> has no guard of its own; the guard is the Play button,
  disabled while \<open>isBeatReady\<close> is false. \<open>generateBeat\<close> tears the session down in its
  first statement but clears \<open>isBeatReady\<close> only after \<open>await initializeAudio()\<close>. When that
  promise rejects in a generation that follows a successful one, the pool is disposed and
  nothing is scheduled, yet \<open>isBeatReady\<close> is still true: the button is enabled, and a
  click starts the transport and sets \<open>isPlaying\<close>.
\<close>

theorem play_enabled_on_disposed_session:
  "isBeatReady first_session \<and>
   generateBeat blocked first_session = (Some ''InvalidStateError'', torn_down) \<and>
   synths torn_down = [] \<and> scheduled (Transport torn_down) = [] \<and>
   disposed torn_down = [0, 1, 2, 3, 4, 5] \<and>
   tstate (Transport torn_down) = Stopped \<and> \<not> isPlaying torn_down \<and>
   isBeatReady torn_down \<and>
   playButton None torn_down = togglePlayback None torn_down \<and>
   tstate (Transport (snd (playButton None torn_down))) = Started \<and>
   isPlaying (snd (playButton None torn_down)) \<and>
   snd (playButton None torn_down) \<noteq> torn_down"
proof -
  have g: "generateBeat blocked first_session = (Some ''InvalidStateError'', torn_down)"
    by (simp add: torn_down_eq generateBeat_aborted blocked_def)
  have f: "synths torn_down = []" "scheduled (Transport torn_down) = []"
    "disposed torn_down = [0, 1, 2, 3, 4, 5]" "tstate (Transport torn_down) = Stopped"
    "\<not> isPlaying torn_down" "isBeatReady torn_down"
    by (simp_all add: torn_down_eq cleanupAudio_eq first_session_fields)
  have p: "playButton None torn_down = togglePlayback None torn_down"
    by (simp add: playButton_def f)
  have t: "togglePlayback None torn_down = (None, startPlayback torn_down)"
    by (simp add: togglePlayback_def f)
  have s: "tstate (Transport (startPlayback torn_down)) = Started"
    "isPlaying (startPlayback torn_down)"
    by (simp_all add: startPlayback_def Transport_start_def)
  from s(2) f(5) have n: "startPlayback torn_down \<noteq> torn_down"
    by auto
  show ?thesis
    by (simp add: g f p t s n first_session_fields)
qed

section \<open>A failed generation\<close>

text \<open>
  Claim C8. When the fetch throws, or answers with a status that is not a success, the run
  of \<open>generateBeat\<close> shows the error in one alert and returns normally. The transport is as
  the initial \<open>cleanupAudio\<close> left it (stopped, nothing scheduled), no instrument was
  created, the pool is empty and its former instruments were disposed, no artifact URL or
  title is stored, and \<open>isBeatReady\<close>, \<open>isPlaying\<close> and \<open>isGenerating\<close> are false.
\<close>

theorem failed_fetch_leaves_clean_state:
  assumes "audio_start g = None"
    and "fetched g = Inl e \<or> (fetched g = Inr r \<and> \<not> ok r \<and> e = ''Error: Generation failed'')"
  shows "fst (generateBeat g s) = None \<and>
         alerts (snd (generateBeat g s)) = alerts s @ [''Error: '' @ e] \<and>
         Transport (snd (generateBeat g s)) = Transport (cleanupAudio s) \<and>
         tstate (Transport (snd (generateBeat g s))) = Stopped \<and>
         scheduled (Transport (snd (generateBeat g s))) = [] \<and>
         synths (snd (generateBeat g s)) = [] \<and>
         created (snd (generateBeat g s)) = created s \<and>
         disposed (snd (generateBeat g s)) = disposed s @ synths s \<and>
         \<not> isBeatReady (snd (generateBeat g s)) \<and>
         \<not> isPlaying (snd (generateBeat g s)) \<and>
         \<not> isGenerating (snd (generateBeat g s)) \<and>
         midiUrl (snd (generateBeat g s)) = None \<and>
         songTitle (snd (generateBeat g s)) = None"
  by (simp add: generateBeat_failed [OF assms] cleanupAudio_eq)

theorem failed_fetch_leaves_clean_state_witness:
  "alerts (snd (generateBeat offline configured)) = [''Error: TypeError: Failed to fetch''] \<and>
   scheduled (Transport (snd (generateBeat offline configured))) = [] \<and>
   disposed (snd (generateBeat offline configured)) = [0, 1, 2, 3, 4, 5] \<and>
   alerts (snd (generateBeat refused mounted)) = [''Error: Error: Generation failed''] \<and>
   \<not> isBeatReady (snd (generateBeat refused mounted))"
proof -
  have a: "audio_start offline = None" and b: "audio_start refused = None"
    by (simp_all add: offline_def refused_def)
  have f: "fetched offline = Inl ''TypeError: Failed to fetch'' \<or>
      (fetched offline = Inr r \<and> \<not> ok r \<and> ''TypeError: Failed to fetch'' = ''Error: Generation failed'')" for r
    by (simp add: offline_def)
  have h: "fetched refused = Inl ''Error: Generation failed'' \<or>
      (fetched refused = Inr \<lparr>ok = False, contentDisposition = None, body = []\<rparr> \<and>
       \<not> ok \<lparr>ok = False, contentDisposition = None, body = []\<rparr> \<and>
       ''Error: Generation failed'' = ''Error: Generation failed'')"
    by (simp add: refused_def)
  show ?thesis
    using failed_fetch_leaves_clean_state [OF a f, of configured]
      failed_fetch_leaves_clean_state [OF b h, of mounted]
    by (simp add: configured_fields mounted_fields cleanupAudio_eq)
qed

section \<open>One session at a time\<close>

text \<open>
  Runs of \<open>generateBeat\<close> that do not overlap keep the sessions apart. Let a run that
  installs score B follow any earlier run. After it the events of the transport are
  exactly the registrations of B, bound to the six instruments created in this run; no
  registration that the earlier run left is among them; \<open>dispose()\<close> was called once on
  each instrument of the earlier pool; and whenever a remaining registration is invoked it
  triggers an instrument of the new pool.
\<close>

lemma sequential_runs_exclusive:
  fixes gA gB :: generation and s0 :: page
  assumes "audio_start gB = None" and "fetched gB = Inr r" and "ok r"
    and "parse_midi gB (body r) = Inr mB"
  defines "sA \<equiv> snd (generateBeat gA s0)"
  defines "sB \<equiv> snd (generateBeat gB sA)"
  shows "scheduled (Transport sB) = registrations (fresh_voices (length (created sA))) mB \<and>
         set (scheduled (Transport sA)) \<inter> set (scheduled (Transport sB)) = {} \<and>
         disposed sB = disposed sA @ synths sA \<and>
         (\<forall>reg \<in> set (scheduled (Transport sB)). \<forall>t.
            fst (invoke (fst reg) t) \<in> set (synths sB))"
proof -
  have B: "sB = (setupSynthsAndSchedule mB
        ((cleanupAudio sA)\<lparr>isGenerating := True, isBeatReady := False,
           songTitle := Some (replace_first ''.mid'' []
              (chosen_filename (selectedStyle sA) (contentDisposition r))),
           objectURLs := (''blob:'' @ uuid gB, body r) # objectURLs sA,
           midiUrl := Some (''blob:'' @ uuid gB)\<rparr>))
        \<lparr>isBeatReady := True, isGenerating := False\<rparr>"
    unfolding sB_def by (simp add: generateBeat_served [OF assms(1-4)])
  have sched: "scheduled (Transport sB) = registrations (fresh_voices (length (created sA))) mB"
    by (simp add: B setup_eq cleanupAudio_eq)
  have syn: "synths sB = [length (created sA), length (created sA) + 1, length (created sA) + 2,
       length (created sA) + 3, length (created sA) + 4, length (created sA) + 5]"
    by (simp add: B setup_eq cleanupAudio_eq)
  have disp: "disposed sB = disposed sA @ synths sA"
    by (simp add: B setup_eq cleanupAudio_eq)
  have disj: "set (scheduled (Transport sA)) \<inter> set (scheduled (Transport sB)) = {}"
  proof -
    from generateBeat_scheduled [of gA s0]
    consider "scheduled (Transport sA) = []"
      | m where "scheduled (Transport sA) = registrations (fresh_voices (length (created s0))) m"
          and "length (created sA) = length (created s0) + 6"
      unfolding sA_def by blast
    then show ?thesis
    proof cases
      case 1
      then show ?thesis by simp
    next
      case 2
      have "reg \<notin> set (scheduled (Transport sB))" if "reg \<in> set (scheduled (Transport sA))" for reg
      proof
        assume "reg \<in> set (scheduled (Transport sB))"
        then have "callback_voices (fst reg) = fresh_voices (length (created sA))"
          unfolding sched by (rule registrations_voices)
        moreover from that have "callback_voices (fst reg) = fresh_voices (length (created s0))"
          unfolding 2(1) by (rule registrations_voices)
        ultimately have "length (created sA) = length (created s0)"
          by (simp add: fresh_voices_inject)
        with 2(2) show False by simp
      qed
      then show ?thesis by blast
    qed
  qed
  have pool: "fst (invoke (fst reg) t) \<in> set (synths sB)"
    if "reg \<in> set (scheduled (Transport sB))" for reg t
  proof -
    from that have v: "callback_voices (fst reg) = fresh_voices (length (created sA))"
      unfolding sched by (rule registrations_voices)
    obtain vs track n where cb: "fst reg = NoteCallback vs track n"
      by (cases "fst reg")
    with v have "vs = fresh_voices (length (created sA))"
      by (simp add: callback_voices_def)
    with cb show ?thesis
      unfolding syn by (simp only: fst_invoke resolve_fresh)
  qed
  from sched disj disp pool show ?thesis by blast
qed

lemma sequential_runs_exclusive_example:
  "scheduled (Transport (snd (generateBeat (served None ''0002'' encore) first_session)))
     = [(NoteCallback (fresh_voices 6) (track_on 2 [note_at 60 ''C4'' 0 2, note_at 64 ''E4'' 0 2])
           (note_at 60 ''C4'' 0 2), 0),
        (NoteCallback (fresh_voices 6) (track_on 2 [note_at 60 ''C4'' 0 2, note_at 64 ''E4'' 0 2])
           (note_at 64 ''E4'' 0 2), 0)] \<and>
   disposed (snd (generateBeat (served None ''0002'' encore) first_session))
     = [0, 1, 2, 3, 4, 5] \<and>
   length (scheduled (Transport first_session)) = 3"
proof -
  have k: "ok \<lparr>ok = True, contentDisposition = None, body = [77, 84, 104, 100]\<rparr>"
    by simp
  have p: "parse_midi (served None ''0002'' encore)
      (body \<lparr>ok = True, contentDisposition = None, body = [77, 84, 104, 100]\<rparr>) = Inr encore"
    by (simp add: served_def)
  have len: "length six_synths = 6"
    by (simp add: six_synths_def)
  note main = sequential_runs_exclusive [OF served_fields(1) served_fields(2) k p,
        of "served None ''0001'' demo" mounted, folded first_session_def]
  have reg: "scheduled (Transport (snd (generateBeat (served None ''0002'' encore) first_session)))
      = registrations (fresh_voices 6) encore"
    using main by (simp add: first_session_fields len)
  have dis: "disposed (snd (generateBeat (served None ''0002'' encore) first_session))
      = [0, 1, 2, 3, 4, 5]"
    using main by (simp add: first_session_fields)
  show ?thesis
    unfolding reg dis first_session_fields
    by (simp add: registrations_def track_registrations_def encore_def demo_def track_on_def
        note_at_def)
qed

text \<open>
  Claim C9. After score B is configured following score A, no registration of A is to
  remain and the instruments of A are to be disposed. The teardown is the \<open>cleanupAudio\<close>
  call at the head of \<open>generateBeat\<close>, and the Generate button is disabled while
  \<open>isGenerating\<close> is true, but \<open>isGenerating\<close> is set only after
  \<open>await initializeAudio()\<close>. A second click during that wait is accepted: both runs tear
  down before either installs, \<open>setupSynthsAndSchedule\<close> cancels nothing, and so the
  registrations of both scores stay scheduled, while the six instruments of A are replaced
  in the pool without \<open>dispose()\<close> ever being called on them.
\<close>

theorem overlapping_runs_keep_both_sessions:
  "generateButton_enabled mounted \<and> generateButton_enabled (generateBeat_enter mounted) \<and>
   scheduled (Transport
      (overlapped (served None ''0001'' demo) (served None ''0002'' encore) mounted))
     = registrations (fresh_voices 0) demo @ registrations (fresh_voices 6) encore \<and>
   registrations (fresh_voices 0) demo \<noteq> [] \<and>
   synths (overlapped (served None ''0001'' demo) (served None ''0002'' encore) mounted)
     = [6, 7, 8, 9, 10, 11] \<and>
   disposed (overlapped (served None ''0001'' demo) (served None ''0002'' encore) mounted) = [] \<and>
   length (created (overlapped (served None ''0001'' demo) (served None ''0002'' encore) mounted))
     = 12"
proof -
  have e: "generateBeat_request (generateBeat_request (generateBeat_enter (generateBeat_enter mounted)))
      = mounted\<lparr>isGenerating := True\<rparr>"
    by (simp add: generateBeat_request_def generateBeat_enter_def cleanupAudio_eq mounted_def)
  have len: "length six_synths = 6"
    by (simp add: six_synths_def)
  have b: "generateButton_enabled mounted" "generateButton_enabled (generateBeat_enter mounted)"
    by (simp_all add: generateButton_enabled_def generateBeat_enter_def cleanupAudio_eq
        mounted_def)
  have r: "registrations (fresh_voices 0) demo \<noteq> []"
    by (simp add: registrations_def track_registrations_def demo_def track_on_def)
  show ?thesis
    unfolding overlapped_def e
    by (simp add: b r generateBeat_respond_served setup_eq len mounted_fields)
qed

section \<open>Download\<close>




end
